theory Spec2Isabelle
  imports Complex_Main "HOL-Library.Log_Nat"
begin

section \<open>Python values and exceptions\<close>

text \<open>
  The exceptions the modelled code can meet. Every constructor stands for a subclass of
  Python's \<^verbatim>\<open>Exception\<close>, which is what \<^verbatim>\<open>except Exception\<close> catches.
  \<open>KeyError\<close> carries the missing key; \<open>LibraryError\<close> stands for whatever the
  third-party client raises (network failure, authentication, rate limit, ...).
\<close>

datatype py_exception =
    KeyError string
  | TypeError
  | ZeroDivisionError
  | OverflowError
  | ValidationError
  | OutputParserException
  | LibraryError string

text \<open>The values stored in the user dictionaries of \<^verbatim>\<open>sample_code.py\<close>.\<close>

datatype pyval = PInt int | PStr string

section \<open>Bot/sample\_code.py\<close>

subsection \<open>process\_data\<close>

text \<open>
  \<^verbatim>\<open>
  def process_data(user_list, threshold):
      results = []
      for user in user_list:
          if user['age'] > threshold:
              results.append(user['name'])
      return results
  \<close>
  A user is a dictionary. \<^verbatim>\<open>user['age']\<close> raises \<open>KeyError\<close> on a missing key, the
  comparison of a string with the integer threshold raises \<open>TypeError\<close>, and
  \<^verbatim>\<open>user['name']\<close> is only read for a user that passed the comparison. The loop is a
  recursion over the list with the accumulator \<open>results\<close>.
\<close>

fun process_data_loop ::
  "(string \<rightharpoonup> pyval) list \<Rightarrow> int \<Rightarrow> pyval list \<Rightarrow> py_exception + pyval list" where
  "process_data_loop [] threshold results = Inr results"
| "process_data_loop (user # rest) threshold results =
     (case user ''age'' of
        None \<Rightarrow> Inl (KeyError ''age'')
      | Some (PStr s) \<Rightarrow> Inl TypeError
      | Some (PInt age) \<Rightarrow>
          if age > threshold then
            (case user ''name'' of
               None \<Rightarrow> Inl (KeyError ''name'')
             | Some name \<Rightarrow> process_data_loop rest threshold (results @ [name]))
          else process_data_loop rest threshold results)"

definition process_data :: "(string \<rightharpoonup> pyval) list \<Rightarrow> int \<Rightarrow> py_exception + pyval list" where
  "process_data user_list threshold = process_data_loop user_list threshold []"

subsection \<open>calculate\_average\<close>

text \<open>
  \<^verbatim>\<open>
  def calculate_average(numbers):
      if not numbers:
          return 0
      total = sum(numbers)
      return total / len(numbers)
  \<close>
  The numbers are Python integers, so \<^verbatim>\<open>sum\<close> is exact and \<^verbatim>\<open>/\<close> is the true
  division of two integers: it raises \<open>ZeroDivisionError\<close> on a zero divisor, and
  otherwise gives the float (an IEEE double) nearest to the exact quotient, ties going
  to the even significand, or raises \<open>OverflowError\<close> when that float would lie outside
  the range of a double. A float is modelled by the rational number it denotes (the two
  zeros are not told apart, and neither is the integer 0 returned for the empty list).
\<close>






section \<open>main.py\<close>

subsection \<open>Data structures\<close>

text \<open>
  The two Pydantic models of the source, each with two fields of type \<^verbatim>\<open>str\<close>.
  A Python dictionary with string keys and string values is a map; JSON is what the
  decoders of the libraries hand to the validation of a model.
\<close>

record CodeAnalysisRequest =
  user_query :: string
  code_file_content :: string

record CodeAnalysisResponse =
  suggestion :: string
  edited_code :: string

type_synonym dict = "string \<rightharpoonup> string"

datatype json =
    JNull
  | JBool bool
  | JNumber rat
  | JString string
  | JArray "json list"
  | JObject "(string \<times> json) list"

text \<open>
  Validation against a model, as the class declarations state it: the value is an
  object, both fields are present, both hold strings. Other keys of the object are
  ignored (the models set no \<^verbatim>\<open>extra\<close> policy).
\<close>

fun validate_CodeAnalysisRequest :: "json \<Rightarrow> py_exception + CodeAnalysisRequest" where
  "validate_CodeAnalysisRequest (JObject members) =
     (case map_of members ''user_query'' of
        Some (JString q) \<Rightarrow>
          (case map_of members ''code_file_content'' of
             Some (JString c) \<Rightarrow> Inr \<lparr>user_query = q, code_file_content = c\<rparr>
           | _ \<Rightarrow> Inl ValidationError)
      | _ \<Rightarrow> Inl ValidationError)"
| "validate_CodeAnalysisRequest _ = Inl ValidationError"

fun validate_CodeAnalysisResponse :: "json \<Rightarrow> py_exception + CodeAnalysisResponse" where
  "validate_CodeAnalysisResponse (JObject members) =
     (case map_of members ''suggestion'' of
        Some (JString s) \<Rightarrow>
          (case map_of members ''edited_code'' of
             Some (JString c) \<Rightarrow> Inr \<lparr>suggestion = s, edited_code = c\<rparr>
           | _ \<Rightarrow> Inl ValidationError)
      | _ \<Rightarrow> Inl ValidationError)"
| "validate_CodeAnalysisResponse _ = Inl ValidationError"

text \<open>\<^verbatim>\<open>model_dump()\<close> of either model: the dictionary of its two fields.\<close>

definition request_model_dump :: "CodeAnalysisRequest \<Rightarrow> dict" where
  "request_model_dump request =
     [''user_query'' \<mapsto> user_query request,
      ''code_file_content'' \<mapsto> code_file_content request]"

definition response_model_dump :: "CodeAnalysisResponse \<Rightarrow> dict" where
  "response_model_dump response =
     [''suggestion'' \<mapsto> suggestion response, ''edited_code'' \<mapsto> edited_code response]"

text \<open>
  A dictionary conforms to \<open>CodeAnalysisResponse\<close> when it holds both fields; this is
  the check that \<^verbatim>\<open>response_model=CodeAnalysisResponse\<close> asks of the handler's result.
\<close>

definition conforms_CodeAnalysisResponse :: "dict \<Rightarrow> bool" where
  "conforms_CodeAnalysisResponse d \<longleftrightarrow> d ''suggestion'' \<noteq> None \<and> d ''edited_code'' \<noteq> None"

subsection \<open>The external collaborators\<close>

text \<open>
  The hosted model and the third-party adapter are parameters of the embedding.
  A chat model takes the messages (role and content) and the state \<open>'w\<close> of the outside
  world, and gives back the reply text or an exception, with the world after the call:
  every call is one application of this function, so the world after a run tells how
  often the model was called. \<open>ChatOpenAI\<close> is the constructor of the client,
  \<open>get_format_instructions\<close> the text the output parser derives from the response
  schema, \<open>parse_json\<close> the parser's decoding of the reply text into JSON.
\<close>

type_synonym message = "string \<times> string"

type_synonym 'w chat_model = "message list \<Rightarrow> 'w \<Rightarrow> (py_exception + string) \<times> 'w"

record ChatOpenAI_args =
  model :: string
  temperature :: int
  api_key :: "string option"
  base_url :: string

record 'w library =
  ChatOpenAI :: "ChatOpenAI_args \<Rightarrow> py_exception + 'w chat_model"
  get_format_instructions :: string
  parse_json :: "string \<Rightarrow> py_exception + json"

subsection \<open>The prompt template\<close>

definition system_prompt :: string where
  \<open>system_prompt =
     ''\<newline>    You are an expert code analysis and refactoring assistant.\<newline>'' @
     ''    Your task is to receive a user's query about a piece of code, analyze it,\<newline>'' @
     ''    and provide a suggestion along with the edited code.\<newline>'' @
     ''    You MUST respond in the JSON format specified. Do not add any extra text or explanations outside of the JSON structure.\<newline>'' @
     ''    The value for the "edited_code" field MUST be a valid JSON string, with all newlines and special characters properly escaped (e.g., using '' @
     [CHR 0x5C] @ ''n for newlines).\<newline>'' @
     ''    ''\<close>

definition user_prompt_template :: string where
  "user_prompt_template =
     ''\<newline>    User Query: {user_query}\<newline>'' @
     ''\<newline>'' @
     ''    --- START OF CODE FILE ---\<newline>'' @
     ''    {code_file_content}\<newline>'' @
     ''    --- END OF CODE FILE ---\<newline>'' @
     ''\<newline>'' @
     ''    {format_instructions}\<newline>'' @
     ''    ''"

text \<open>
  Filling a template: the text is copied, and a field \<^verbatim>\<open>{name}\<close> is replaced by the
  value of the variable \<open>name\<close>, which is not scanned again; a variable that is not
  supplied raises \<open>KeyError\<close>. (The templates of the source use no other feature of
  the format syntax: no doubled braces, no conversions.)
\<close>

function format_template :: "string \<Rightarrow> dict \<Rightarrow> py_exception + string" where
  "format_template [] vars = Inr []"
| "format_template (c # cs) vars =
     (if c = CHR ''{'' then
        (case vars (takeWhile (\<lambda>x. x \<noteq> CHR ''}'') cs) of
           None \<Rightarrow> Inl (KeyError (takeWhile (\<lambda>x. x \<noteq> CHR ''}'') cs))
         | Some v \<Rightarrow>
             (case format_template (drop 1 (dropWhile (\<lambda>x. x \<noteq> CHR ''}'') cs)) vars of
                Inl e \<Rightarrow> Inl e
              | Inr s \<Rightarrow> Inr (v @ s)))
      else
        (case format_template cs vars of
           Inl e \<Rightarrow> Inl e
         | Inr s \<Rightarrow> Inr (c # s)))"
  by pat_completeness auto
termination
  by (relation "measure (\<lambda>(t, vars). length t)")
     (auto simp: le_imp_less_Suc [OF order_trans [OF diff_le_self length_dropWhile_le]])

text \<open>
  \<^verbatim>\<open>ChatPromptTemplate.from_messages([("system", ...), ("human", ...)])\<close>, invoked on the
  variables: both templates are filled, in this order.
\<close>

definition prompt_invoke :: "dict \<Rightarrow> py_exception + message list" where
  "prompt_invoke vars =
     (case format_template system_prompt vars of
        Inl e \<Rightarrow> Inl e
      | Inr s \<Rightarrow>
          (case format_template user_prompt_template vars of
             Inl e \<Rightarrow> Inl e
           | Inr h \<Rightarrow> Inr [(''system'', s), (''human'', h)]))"

subsection \<open>process\_code\_analysis\_request\<close>

text \<open>
  The output parser built with \<^verbatim>\<open>pydantic_object=CodeAnalysisResponse\<close>: the reply text is
  decoded and the result validated against the model; either failure is raised as the
  parser's own exception.
\<close>

definition output_parser_parse :: "'w library \<Rightarrow> string \<Rightarrow> py_exception + CodeAnalysisResponse" where
  "output_parser_parse lib text =
     (case parse_json lib text of
        Inl e \<Rightarrow> Inl OutputParserException
      | Inr j \<Rightarrow>
          (case validate_CodeAnalysisResponse j of
             Inl e \<Rightarrow> Inl OutputParserException
           | Inr response \<Rightarrow> Inr response))"

text \<open>
  \<^verbatim>\<open>chain = prompt | llm | output_parser\<close> and \<^verbatim>\<open>chain.invoke(vars)\<close>: the three stages run
  one after the other, and the first exception ends the run. Only the model changes the
  world.
\<close>

definition chain_invoke ::
  "'w library \<Rightarrow> 'w chat_model \<Rightarrow> dict \<Rightarrow> 'w \<Rightarrow> (py_exception + CodeAnalysisResponse) \<times> 'w" where
  "chain_invoke lib llm vars w =
     (case prompt_invoke vars of
        Inl e \<Rightarrow> (Inl e, w)
      | Inr messages \<Rightarrow>
          (case llm messages w of
             (Inl e, w') \<Rightarrow> (Inl e, w')
           | (Inr text, w') \<Rightarrow> (output_parser_parse lib text, w')))"

text \<open>
  The dictionary literal passed to \<^verbatim>\<open>chain.invoke\<close>: its entries are evaluated in order,
  and \<^verbatim>\<open>request_data[...]\<close> raises \<open>KeyError\<close> on a missing key.
\<close>

definition invoke_input :: "dict \<Rightarrow> string \<Rightarrow> py_exception + dict" where
  "invoke_input request_data format_instructions =
     (case request_data ''user_query'' of
        None \<Rightarrow> Inl (KeyError ''user_query'')
      | Some q \<Rightarrow>
          (case request_data ''code_file_content'' of
             None \<Rightarrow> Inl (KeyError ''code_file_content'')
           | Some c \<Rightarrow>
               Inr [''user_query'' \<mapsto> q,
                    ''code_file_content'' \<mapsto> c,
                    ''format_instructions'' \<mapsto> format_instructions]))"

text \<open>The body of the \<^verbatim>\<open>try\<close> statement (lines 90 to 96).\<close>

definition try_body ::
  "'w library \<Rightarrow> 'w chat_model \<Rightarrow> string \<Rightarrow> dict \<Rightarrow> 'w \<Rightarrow> (py_exception + dict) \<times> 'w" where
  "try_body lib llm format_instructions request_data w =
     (case invoke_input request_data format_instructions of
        Inl e \<Rightarrow> (Inl e, w)
      | Inr vars \<Rightarrow>
          (case chain_invoke lib llm vars w of
             (Inl e, w') \<Rightarrow> (Inl e, w')
           | (Inr response, w') \<Rightarrow> (Inr (response_model_dump response), w')))"

definition error_response :: dict where
  "error_response = [''error'' \<mapsto> ''Failed to get a valid response from the AI model.'']"

text \<open>
  The function itself. \<open>NVIDIA_API_KEY\<close> is the module's global, read from the
  environment when the module is loaded (\<open>None\<close> when it is not set); \<open>llm_args\<close>
  are the keyword arguments of the constructor call (lines 52 to 57). The client is
  constructed before the \<^verbatim>\<open>try\<close> statement, so an exception of the constructor leaves the
  function; every exception of the \<^verbatim>\<open>try\<close> body is replaced by \<open>error_response\<close>.
  The \<^verbatim>\<open>print\<close> calls are left out.
\<close>

definition llm_args :: "string option \<Rightarrow> ChatOpenAI_args" where
  "llm_args NVIDIA_API_KEY =
     \<lparr>model = ''meta/llama3-70b-instruct'',
      temperature = 0,
      api_key = NVIDIA_API_KEY,
      base_url = ''https://integrate.api.nvidia.com/v1''\<rparr>"

definition process_code_analysis_request ::
  "'w library \<Rightarrow> string option \<Rightarrow> dict \<Rightarrow> 'w \<Rightarrow> (py_exception + dict) \<times> 'w" where
  "process_code_analysis_request lib NVIDIA_API_KEY request_data w =
     (case ChatOpenAI lib (llm_args NVIDIA_API_KEY) of
        Inl e \<Rightarrow> (Inl e, w)
      | Inr llm \<Rightarrow>
          (let format_instructions = get_format_instructions lib
           in case try_body lib llm format_instructions request_data w of
                (Inl e, w') \<Rightarrow> (Inr error_response, w')
              | (Inr response, w') \<Rightarrow> (Inr response, w')))"

subsection \<open>The webhook endpoint\<close>

definition handle_code_analysis ::
  "'w library \<Rightarrow> string option \<Rightarrow> CodeAnalysisRequest \<Rightarrow> 'w \<Rightarrow> (py_exception + dict) \<times> 'w" where
  "handle_code_analysis lib NVIDIA_API_KEY request w =
     (let request_data = request_model_dump request;
          response = process_code_analysis_request lib NVIDIA_API_KEY request_data w
      in response)"

text \<open>
  What the decorator \<^verbatim>\<open>@app.post("/analyze-code", response_model=CodeAnalysisResponse)\<close>
  and the annotation \<^verbatim>\<open>request: CodeAnalysisRequest\<close> add around the handler: the JSON
  body is validated against the request model, and a body that fails is answered with
  status 422 without the handler being called; the handler's result is checked
  against the response model, and an exception of the handler or a result that does
  not conform is answered with status 500.
\<close>

datatype http_response = HTTP_200 dict | HTTP_422 | HTTP_500

definition analyze_code_endpoint ::
  "'w library \<Rightarrow> string option \<Rightarrow> json \<Rightarrow> 'w \<Rightarrow> http_response \<times> 'w" where
  "analyze_code_endpoint lib NVIDIA_API_KEY body w =
     (case validate_CodeAnalysisRequest body of
        Inl e \<Rightarrow> (HTTP_422, w)
      | Inr request \<Rightarrow>
          (case handle_code_analysis lib NVIDIA_API_KEY request w of
             (Inl e, w') \<Rightarrow> (HTTP_500, w')
           | (Inr response, w') \<Rightarrow>
               (if conforms_CodeAnalysisResponse response
                then (HTTP_200 response, w') else (HTTP_500, w'))))"

text \<open>
  The routes the application declares: one decorator, one route. \<open>None\<close> means that
  no function of this repository runs for the request.
\<close>

definition app_routes :: "(string \<times> string) list" where
  "app_routes = [(''POST'', ''/analyze-code'')]"

definition app ::
  "'w library \<Rightarrow> string option \<Rightarrow> string \<Rightarrow> string \<Rightarrow> json \<Rightarrow> 'w \<Rightarrow> (http_response \<times> 'w) option" where
  "app lib NVIDIA_API_KEY method path body w =
     (if (method, path) \<in> set app_routes
      then Some (analyze_code_endpoint lib NVIDIA_API_KEY body w) else None)"

subsection \<open>The run of a well-formed request, unfolded\<close>

text \<open>
  The user prompt with its three placeholders filled, written out; and what the
  function does for a request with both fields once the client is constructed, with
  the \<^verbatim>\<open>try\<close> statement and the chain unfolded. The lemmas below prove that the function
  has this form.
\<close>

definition filled_user_prompt :: "string \<Rightarrow> string \<Rightarrow> string \<Rightarrow> string" where
  "filled_user_prompt q c format_instructions =
     ''\<newline>    User Query: '' @ q @ ''\<newline>\<newline>    --- START OF CODE FILE ---\<newline>    '' @ c @
     ''\<newline>    --- END OF CODE FILE ---\<newline>\<newline>    '' @ format_instructions @ ''\<newline>    ''"

definition pipeline_run ::
  "'w library \<Rightarrow> 'w chat_model \<Rightarrow> string \<Rightarrow> string \<Rightarrow> 'w \<Rightarrow> (py_exception + dict) \<times> 'w" where
  "pipeline_run lib llm q c w =
     (let messages = [(''system'', system_prompt),
                      (''human'', filled_user_prompt q c (get_format_instructions lib))];
          (reply, w') = llm messages w
      in case reply of
           Inl e \<Rightarrow> (Inr error_response, w')
         | Inr text \<Rightarrow>
             (case output_parser_parse lib text of
                Inl e \<Rightarrow> (Inr error_response, w')
              | Inr response \<Rightarrow> (Inr (response_model_dump response), w')))"

subsection \<open>The pipeline as the specification words it\<close>

text \<open>
  ``Template fill, external call, schema validation'': the prompt is the fixed template
  filled from the request fields, the model is called once on it, the decoded reply is
  held against the fixed schema (an object with a string under \<open>'suggestion'\<close> and a
  string under \<open>'edited_code'\<close>), and the pair is returned as the dictionary of these
  two fields; any failure is surfaced as the generic error. These definitions are
  written from the specification and use nothing of the parser or of
  \<^verbatim>\<open>model_dump\<close> as embedded above.
\<close>

definition spec_schema_fields :: "json \<Rightarrow> (string \<times> string) option" where
  "spec_schema_fields j =
     (case j of
        JObject members \<Rightarrow>
          (case (map_of members ''suggestion'', map_of members ''edited_code'') of
             (Some (JString s), Some (JString ec)) \<Rightarrow> Some (s, ec)
           | _ \<Rightarrow> None)
      | _ \<Rightarrow> None)"

definition spec_generic_error :: dict where
  "spec_generic_error = [''error'' \<mapsto> ''Failed to get a valid response from the AI model.'']"

definition spec_pipeline ::
  "'w library \<Rightarrow> 'w chat_model \<Rightarrow> string \<Rightarrow> string \<Rightarrow> 'w \<Rightarrow> (py_exception + dict) \<times> 'w" where
  "spec_pipeline lib llm q c w =
     (let prompt = [(''system'', system_prompt),
                    (''human'', filled_user_prompt q c (get_format_instructions lib))];
          (reply, w') = llm prompt w
      in (case reply of
            Inl e \<Rightarrow> Inr spec_generic_error
          | Inr text \<Rightarrow>
              (case parse_json lib text of
                 Inl e \<Rightarrow> Inr spec_generic_error
               | Inr j \<Rightarrow>
                   (case spec_schema_fields j of
                      None \<Rightarrow> Inr spec_generic_error
                    | Some (s, ec) \<Rightarrow> Inr [''suggestion'' \<mapsto> s, ''edited_code'' \<mapsto> ec])),
          w'))"

subsection \<open>Concrete collaborators for the examples\<close>

text \<open>
  A world that records every call: the list of the message lists sent so far. The
  canned model answers every call with the same result and appends the messages to the
  record.
\<close>

definition canned_model :: "py_exception + string \<Rightarrow> (message list) list chat_model" where
  "canned_model reply messages sent = (reply, sent @ [messages])"

definition good_reply :: string where
  \<open>good_reply = ''{"suggestion": "Add type hints.", "edited_code": "x = 1"}''\<close>

definition incomplete_reply :: string where
  \<open>incomplete_reply = ''{"suggestion": "Add type hints."}''\<close>

definition canned_decode :: "string \<Rightarrow> py_exception + json" where
  "canned_decode text =
     (if text = good_reply then
        Inr (JObject [(''suggestion'', JString ''Add type hints.''),
                      (''edited_code'', JString ''x = 1'')])
      else if text = incomplete_reply then
        Inr (JObject [(''suggestion'', JString ''Add type hints.'')])
      else Inl (LibraryError ''JSONDecodeError''))"

definition canned_library :: "py_exception + string \<Rightarrow> (message list) list library" where
  "canned_library reply =
     \<lparr>ChatOpenAI = (\<lambda>args. Inr (canned_model reply)),
      get_format_instructions = ''Return a JSON object.'',
      parse_json = canned_decode\<rparr>"


section \<open>Properties of Bot/sample\_code.py\<close>

lemma process_data_loop_names:
  "list_all2 (\<lambda>user (age, name). user ''age'' = Some (PInt age) \<and> user ''name'' = Some name)
     user_list profile \<Longrightarrow>
   process_data_loop user_list threshold results =
     Inr (results @ map snd (filter (\<lambda>(age, name). age > threshold) profile))"
proof (induction user_list arbitrary: profile results)
  case Nil
  then show ?case by simp
next
  case (Cons user rest)
  then obtain p ps where profile: "profile = p # ps"
    by (cases profile) auto
  obtain age name where p: "p = (age, name)"
    by (cases p)
  from Cons.prems profile p
  have here: "user ''age'' = Some (PInt age)" "user ''name'' = Some name"
    and there: "list_all2 (\<lambda>user (age, name). user ''age'' = Some (PInt age) \<and> user ''name'' = Some name) rest ps"
    by auto
  show ?case
    using here Cons.IH [OF there] by (simp add: profile p)
qed

text \<open>
  Claim C10. For a list of user dictionaries in which every user has an integer under
  \<open>'age'\<close> and a value under \<open>'name'\<close>, and for every threshold, \<open>process_data\<close>
  returns (without raising) the \<open>'name'\<close> values of exactly the users whose age is
  strictly greater than the threshold, in the order of the input list. The list
  \<open>profile\<close> names, user by user, the age and the name stored in the dictionary.
\<close>

theorem process_data_older_names:
  "list_all2 (\<lambda>user (age, name). user ''age'' = Some (PInt age) \<and> user ''name'' = Some name)
     user_list profile \<Longrightarrow>
   process_data user_list threshold =
     Inr (map snd (filter (\<lambda>(age, name). age > threshold) profile))"
  unfolding process_data_def
  by (simp add: process_data_loop_names)

theorem process_data_older_names_witness:
  "process_data
     [[''age'' \<mapsto> PInt 30, ''name'' \<mapsto> PStr ''Ann''],
      [''age'' \<mapsto> PInt 18, ''name'' \<mapsto> PStr ''Bob''],
      [''name'' \<mapsto> PStr ''Cy'', ''age'' \<mapsto> PInt 41]] 18
   = Inr [PStr ''Ann'', PStr ''Cy'']"
  using process_data_older_names
    [of "[[''age'' \<mapsto> PInt 30, ''name'' \<mapsto> PStr ''Ann''],
          [''age'' \<mapsto> PInt 18, ''name'' \<mapsto> PStr ''Bob''],
          [''name'' \<mapsto> PStr ''Cy'', ''age'' \<mapsto> PInt 41]]"
        "[(30, PStr ''Ann''), (18, PStr ''Bob''), (41, PStr ''Cy'')]" 18]
  by simp

subsection \<open>The float nearest to a quotient\<close>

















subsection \<open>calculate\_average\<close>





section \<open>Properties of main.py\<close>

subsection \<open>Auxiliary facts\<close>

lemma format_template_literal:
  "CHR ''{'' \<notin> set t \<Longrightarrow> format_template t vars = Inr t"
  by (induction t) auto

lemma system_prompt_literal: "CHR ''{'' \<notin> set system_prompt"
  by (simp add: system_prompt_def)

lemma format_user_prompt_template:
  assumes "vars ''user_query'' = Some q"
    and "vars ''code_file_content'' = Some c"
    and "vars ''format_instructions'' = Some f"
  shows "format_template user_prompt_template vars = Inr (filled_user_prompt q c f)"
  using assms by (simp add: user_prompt_template_def filled_user_prompt_def)

lemma prompt_invoke_filled:
  "prompt_invoke [''user_query'' \<mapsto> q, ''code_file_content'' \<mapsto> c, ''format_instructions'' \<mapsto> f]
   = Inr [(''system'', system_prompt), (''human'', filled_user_prompt q c f)]"
  by (simp add: prompt_invoke_def format_template_literal [OF system_prompt_literal]
      format_user_prompt_template)

lemma invoke_input_present:
  "request_data ''user_query'' = Some q \<Longrightarrow> request_data ''code_file_content'' = Some c \<Longrightarrow>
   invoke_input request_data f =
     Inr [''user_query'' \<mapsto> q, ''code_file_content'' \<mapsto> c, ''format_instructions'' \<mapsto> f]"
  by (simp add: invoke_input_def)

lemma invoke_input_missing:
  "request_data ''user_query'' = None \<or> request_data ''code_file_content'' = None \<Longrightarrow>
   \<exists>k. invoke_input request_data f = Inl (KeyError k)"
  by (auto simp: invoke_input_def split: option.splits)

lemma process_is_pipeline:
  assumes "ChatOpenAI lib (llm_args key) = Inr llm"
    and "request_data ''user_query'' = Some q"
    and "request_data ''code_file_content'' = Some c"
  shows "process_code_analysis_request lib key request_data w = pipeline_run lib llm q c w"
  using assms
  by (simp add: process_code_analysis_request_def try_body_def chain_invoke_def
      invoke_input_present prompt_invoke_filled pipeline_run_def
      split: prod.splits sum.splits)

lemma process_missing_key:
  assumes "ChatOpenAI lib (llm_args key) = Inr llm"
    and "request_data ''user_query'' = None \<or> request_data ''code_file_content'' = None"
  shows "process_code_analysis_request lib key request_data w = (Inr error_response, w)"
  using assms(1) invoke_input_missing [OF assms(2), of "get_format_instructions lib"]
  by (auto simp: process_code_analysis_request_def try_body_def)

lemma process_constructor_raises:
  "ChatOpenAI lib (llm_args key) = Inl e \<Longrightarrow>
   process_code_analysis_request lib key request_data w = (Inl e, w)"
  by (simp add: process_code_analysis_request_def)

lemma canned_ctor: "ChatOpenAI (canned_library reply) args = Inr (canned_model reply)"
  by (simp add: canned_library_def)

lemma validate_response_ok:
  "validate_CodeAnalysisResponse j = Inr r \<longleftrightarrow>
   (\<exists>members. j = JObject members \<and>
      map_of members ''suggestion'' = Some (JString (suggestion r)) \<and>
      map_of members ''edited_code'' = Some (JString (edited_code r)))"
  by (cases j) (auto split: option.splits json.splits)

lemma validate_response_error:
  "validate_CodeAnalysisResponse j = Inl e \<Longrightarrow> e = ValidationError"
  by (cases j) (auto split: option.splits json.splits)

lemma output_parser_parse_ok:
  "output_parser_parse lib text = Inr r \<longleftrightarrow>
   (\<exists>members. parse_json lib text = Inr (JObject members) \<and>
      map_of members ''suggestion'' = Some (JString (suggestion r)) \<and>
      map_of members ''edited_code'' = Some (JString (edited_code r)))"
  by (auto simp: output_parser_parse_def validate_response_ok split: sum.splits)

lemma output_parser_parse_error:
  "output_parser_parse lib text = Inl e \<Longrightarrow> e = OutputParserException"
  by (auto simp: output_parser_parse_def split: sum.splits)

lemma dom_response_model_dump:
  "dom (response_model_dump r) = {''suggestion'', ''edited_code''}"
  by (auto simp: response_model_dump_def)

lemma invoke_input_cong:
  assumes "d1 ''user_query'' = d2 ''user_query''"
    and "d1 ''code_file_content'' = d2 ''code_file_content''"
  shows "invoke_input d1 f = invoke_input d2 f"
  unfolding invoke_input_def assms ..

lemma try_body_cong:
  assumes "d1 ''user_query'' = d2 ''user_query''"
    and "d1 ''code_file_content'' = d2 ''code_file_content''"
  shows "try_body lib llm f d1 w = try_body lib llm f d2 w"
  unfolding try_body_def invoke_input_cong [OF assms] ..

lemma process_cong:
  assumes "d1 ''user_query'' = d2 ''user_query''"
    and "d1 ''code_file_content'' = d2 ''code_file_content''"
  shows "process_code_analysis_request lib key d1 w = process_code_analysis_request lib key d2 w"
  unfolding process_code_analysis_request_def try_body_cong [OF assms] ..

lemma snd_pipeline_run:
  "snd (pipeline_run lib llm q c w) =
   snd (llm [(''system'', system_prompt),
             (''human'', filled_user_prompt q c (get_format_instructions lib))] w)"
  by (simp add: pipeline_run_def split: prod.splits sum.splits)

lemma fst_pipeline_run:
  "fst (pipeline_run lib llm q c w) =
   (case fst (llm [(''system'', system_prompt),
                   (''human'', filled_user_prompt q c (get_format_instructions lib))] w) of
      Inl e \<Rightarrow> Inr error_response
    | Inr text \<Rightarrow>
        (case output_parser_parse lib text of
           Inl e \<Rightarrow> Inr error_response
         | Inr response \<Rightarrow> Inr (response_model_dump response)))"
  by (simp add: pipeline_run_def split: prod.splits sum.splits)

lemma validate_request_ok:
  "validate_CodeAnalysisRequest body = Inr request \<longleftrightarrow>
   (\<exists>members. body = JObject members \<and>
      map_of members ''user_query'' = Some (JString (user_query request)) \<and>
      map_of members ''code_file_content'' = Some (JString (code_file_content request)))"
  by (cases body) (auto split: option.splits json.splits)

lemma validate_request_missing:
  "map_of members ''user_query'' = None \<or> map_of members ''code_file_content'' = None \<Longrightarrow>
   validate_CodeAnalysisRequest (JObject members) = Inl ValidationError"
  by (auto split: option.splits json.splits)

lemma validate_request_not_object:
  "(\<forall>members. body \<noteq> JObject members) \<Longrightarrow> validate_CodeAnalysisRequest body = Inl ValidationError"
  by (cases body) auto

lemma dom_request_model_dump:
  "dom (request_model_dump request) = {''user_query'', ''code_file_content''}"
  by (auto simp: request_model_dump_def)

lemma canned_format_instructions:
  "get_format_instructions (canned_library reply) = ''Return a JSON object.''"
  by (simp add: canned_library_def)

lemma validate_request_rejects:
  assumes "\<forall>members. body = JObject members \<longrightarrow>
        map_of members ''user_query'' = None \<or> map_of members ''code_file_content'' = None"
  shows "validate_CodeAnalysisRequest body = Inl ValidationError"
proof (cases body)
  case (JObject members)
  with assms have "map_of members ''user_query'' = None \<or> map_of members ''code_file_content'' = None"
    by simp
  then show ?thesis
    unfolding JObject by (rule validate_request_missing)
qed simp_all

lemma app_routes_iff:
  "app lib key method path body w \<noteq> None \<longleftrightarrow> method = ''POST'' \<and> path = ''/analyze-code''"
  by (simp add: app_def app_routes_def)

lemma app_post:
  "app lib key ''POST'' ''/analyze-code'' body w = Some (analyze_code_endpoint lib key body w)"
  by (simp add: app_def app_routes_def)

lemma endpoint_rejects:
  "validate_CodeAnalysisRequest body = Inl e \<Longrightarrow>
   analyze_code_endpoint lib key body w = (HTTP_422, w)"
  by (simp add: analyze_code_endpoint_def)

lemma endpoint_accepts:
  "validate_CodeAnalysisRequest body = Inr request \<Longrightarrow>
   analyze_code_endpoint lib key body w =
        (case process_code_analysis_request lib key (request_model_dump request) w of
           (Inl e, w') \<Rightarrow> (HTTP_500, w')
         | (Inr response, w') \<Rightarrow>
             if conforms_CodeAnalysisResponse response
             then (HTTP_200 response, w') else (HTTP_500, w'))"
  by (simp add: analyze_code_endpoint_def handle_code_analysis_def)

lemma validate_response_spec:
  "validate_CodeAnalysisResponse j =
   (case spec_schema_fields j of
      None \<Rightarrow> Inl ValidationError
    | Some (s, ec) \<Rightarrow> Inr \<lparr>suggestion = s, edited_code = ec\<rparr>)"
  by (cases j) (simp_all add: spec_schema_fields_def split: option.splits json.splits)

lemma output_parser_parse_spec:
  "output_parser_parse lib text =
   (case parse_json lib text of
      Inl e \<Rightarrow> Inl OutputParserException
    | Inr j \<Rightarrow>
        (case spec_schema_fields j of
           None \<Rightarrow> Inl OutputParserException
         | Some (s, ec) \<Rightarrow> Inr \<lparr>suggestion = s, edited_code = ec\<rparr>))"
  by (simp add: output_parser_parse_def validate_response_spec split: sum.splits option.splits)

lemma pipeline_run_spec: "pipeline_run lib llm q c w = spec_pipeline lib llm q c w"
  by (simp add: pipeline_run_def spec_pipeline_def output_parser_parse_spec
      response_model_dump_def error_response_def spec_generic_error_def
      split: prod.splits sum.splits option.splits)

subsection \<open>The claims about the processing function\<close>



text \<open>
  Claim C3. With the client constructed and both fields in the payload,
  \<open>process_code_analysis_request\<close> is the three-step linear pipeline of the
  specification, \<open>spec_pipeline\<close>: the fixed template is filled from the two request
  fields and the format instructions; the model is called once on these messages (the
  world after the run is the world after that one call); the reply is decoded and held
  against the schema of \<open>CodeAnalysisResponse\<close>; and on success the parsed pair is
  returned as the dictionary of \<open>'suggestion'\<close> and \<open>'edited_code'\<close>, with no other
  step, retry or branch.
\<close>

theorem process_is_three_step_pipeline:
  "ChatOpenAI lib (llm_args key) = Inr llm \<Longrightarrow>
   request_data ''user_query'' = Some q \<Longrightarrow>
   request_data ''code_file_content'' = Some c \<Longrightarrow>
   process_code_analysis_request lib key request_data w = spec_pipeline lib llm q c w"
  by (simp add: process_is_pipeline pipeline_run_spec)

theorem process_is_three_step_pipeline_witness:
  "process_code_analysis_request (canned_library (Inr good_reply))
     (Some ''nvapi-key'') [''user_query'' \<mapsto> ''Add a docstring'', ''code_file_content'' \<mapsto> ''x = 1''] []
   = (Inr [''suggestion'' \<mapsto> ''Add type hints.'', ''edited_code'' \<mapsto> ''x = 1''],
      [[(''system'', system_prompt),
        (''human'', filled_user_prompt ''Add a docstring'' ''x = 1'' ''Return a JSON object.'')]])"
  using process_is_three_step_pipeline
      [of "canned_library (Inr good_reply)" "Some ''nvapi-key''" "canned_model (Inr good_reply)"
          "[''user_query'' \<mapsto> ''Add a docstring'', ''code_file_content'' \<mapsto> ''x = 1'']"
          "''Add a docstring''" "''x = 1''" "[]"]
  by (simp add: canned_library_def canned_model_def spec_pipeline_def
      spec_schema_fields_def canned_decode_def good_reply_def)



text \<open>
  Claim C4. Every reply of the model goes through the output parser before anything is
  returned. When the reply decodes to an object that holds strings under
  \<open>'suggestion'\<close> and \<open>'edited_code'\<close>, the result is the dictionary with exactly
  these two fields. When it does not (it does not decode, or it is no object, or a field
  is missing or not a string), the parser raises \<open>OutputParserException\<close> and the call
  ends in the generic error branch.
\<close>

theorem reply_is_validated_against_schema:
  assumes "ChatOpenAI lib (llm_args key) = Inr llm"
    and "request_data ''user_query'' = Some q"
    and "request_data ''code_file_content'' = Some c"
    and "llm [(''system'', system_prompt),
              (''human'', filled_user_prompt q c (get_format_instructions lib))] w = (Inr text, w')"
  shows
    "(\<forall>members s ec.
        parse_json lib text = Inr (JObject members) \<and>
        map_of members ''suggestion'' = Some (JString s) \<and>
        map_of members ''edited_code'' = Some (JString ec) \<longrightarrow>
        process_code_analysis_request lib key request_data w =
          (Inr [''suggestion'' \<mapsto> s, ''edited_code'' \<mapsto> ec], w') \<and>
        dom [''suggestion'' \<mapsto> s, ''edited_code'' \<mapsto> ec] = {''suggestion'', ''edited_code''}) \<and>
     ((\<nexists>members s ec.
        parse_json lib text = Inr (JObject members) \<and>
        map_of members ''suggestion'' = Some (JString s) \<and>
        map_of members ''edited_code'' = Some (JString ec)) \<longrightarrow>
        output_parser_parse lib text = Inl OutputParserException \<and>
        process_code_analysis_request lib key request_data w = (Inr error_response, w'))"
proof (intro conjI allI impI)
  fix members s ec
  assume ok: "parse_json lib text = Inr (JObject members) \<and>
        map_of members ''suggestion'' = Some (JString s) \<and>
        map_of members ''edited_code'' = Some (JString ec)"
  then have "output_parser_parse lib text = Inr \<lparr>suggestion = s, edited_code = ec\<rparr>"
    by (simp add: output_parser_parse_def)
  with assms show "process_code_analysis_request lib key request_data w =
          (Inr [''suggestion'' \<mapsto> s, ''edited_code'' \<mapsto> ec], w')"
    by (simp add: process_is_pipeline pipeline_run_def response_model_dump_def)
  show "dom [''suggestion'' \<mapsto> s, ''edited_code'' \<mapsto> ec] = {''suggestion'', ''edited_code''}"
    by auto
next
  assume bad: "\<nexists>members s ec.
        parse_json lib text = Inr (JObject members) \<and>
        map_of members ''suggestion'' = Some (JString s) \<and>
        map_of members ''edited_code'' = Some (JString ec)"
  have "\<nexists>r. output_parser_parse lib text = Inr r"
    using bad unfolding output_parser_parse_ok by blast
  then obtain e where "output_parser_parse lib text = Inl e"
    by (cases "output_parser_parse lib text") auto
  then show raised: "output_parser_parse lib text = Inl OutputParserException"
    using output_parser_parse_error by blast
  with assms show "process_code_analysis_request lib key request_data w = (Inr error_response, w')"
    by (simp add: process_is_pipeline pipeline_run_def)
qed

theorem reply_is_validated_against_schema_witness:
  "process_code_analysis_request (canned_library (Inr good_reply)) (Some ''nvapi-key'')
     [''user_query'' \<mapsto> ''Add a docstring'', ''code_file_content'' \<mapsto> ''x = 1''] []
   = (Inr [''suggestion'' \<mapsto> ''Add type hints.'', ''edited_code'' \<mapsto> ''x = 1''],
      [[(''system'', system_prompt),
        (''human'', filled_user_prompt ''Add a docstring'' ''x = 1'' ''Return a JSON object.'')]]) \<and>
   process_code_analysis_request (canned_library (Inr incomplete_reply)) (Some ''nvapi-key'')
     [''user_query'' \<mapsto> ''Add a docstring'', ''code_file_content'' \<mapsto> ''x = 1''] []
   = (Inr error_response,
      [[(''system'', system_prompt),
        (''human'', filled_user_prompt ''Add a docstring'' ''x = 1'' ''Return a JSON object.'')]])"
  using
    reply_is_validated_against_schema
      [of "canned_library (Inr good_reply)" "Some ''nvapi-key''" "canned_model (Inr good_reply)"
          "[''user_query'' \<mapsto> ''Add a docstring'', ''code_file_content'' \<mapsto> ''x = 1'']"
          "''Add a docstring''" "''x = 1''" "[]" good_reply
          "[[(''system'', system_prompt),
             (''human'', filled_user_prompt ''Add a docstring'' ''x = 1'' ''Return a JSON object.'')]]"]
    reply_is_validated_against_schema
      [of "canned_library (Inr incomplete_reply)" "Some ''nvapi-key''" "canned_model (Inr incomplete_reply)"
          "[''user_query'' \<mapsto> ''Add a docstring'', ''code_file_content'' \<mapsto> ''x = 1'']"
          "''Add a docstring''" "''x = 1''" "[]" incomplete_reply
          "[[(''system'', system_prompt),
             (''human'', filled_user_prompt ''Add a docstring'' ''x = 1'' ''Return a JSON object.'')]]"]
  by (simp add: canned_library_def canned_model_def canned_decode_def good_reply_def
      incomplete_reply_def)

text \<open>
  Claim C5. The prompt is the fixed template filled from the two request fields only.
  Two payloads that agree on \<open>'user_query'\<close> and on \<open>'code_file_content'\<close> give the same
  run, whatever else they hold: the same result and the same world, hence the same
  messages sent to the model. Written out, the model is called on the constant system
  prompt and on the user template filled with the two fields and with the format
  instructions of the output parser, which do not come from the request.
\<close>

theorem prompt_depends_only_on_request_fields:
  assumes "d1 ''user_query'' = d2 ''user_query''"
    and "d1 ''code_file_content'' = d2 ''code_file_content''"
  shows
    "process_code_analysis_request lib key d1 w = process_code_analysis_request lib key d2 w \<and>
     (\<forall>llm q c.
        ChatOpenAI lib (llm_args key) = Inr llm \<and>
        d1 ''user_query'' = Some q \<and> d1 ''code_file_content'' = Some c \<longrightarrow>
        snd (process_code_analysis_request lib key d2 w) =
          snd (llm [(''system'', system_prompt),
                    (''human'', filled_user_prompt q c (get_format_instructions lib))] w))"
proof (intro conjI allI impI)
  show "process_code_analysis_request lib key d1 w = process_code_analysis_request lib key d2 w"
    using assms by (rule process_cong)
next
  fix llm q c
  assume "ChatOpenAI lib (llm_args key) = Inr llm \<and>
        d1 ''user_query'' = Some q \<and> d1 ''code_file_content'' = Some c"
  with assms have "process_code_analysis_request lib key d2 w = pipeline_run lib llm q c w"
    by (simp add: process_is_pipeline)
  then show "snd (process_code_analysis_request lib key d2 w) =
          snd (llm [(''system'', system_prompt),
                    (''human'', filled_user_prompt q c (get_format_instructions lib))] w)"
    by (simp add: snd_pipeline_run)
qed

theorem prompt_depends_only_on_request_fields_witness:
  "snd (process_code_analysis_request (canned_library (Inr good_reply)) (Some ''nvapi-key'')
     [''user_query'' \<mapsto> ''Add a docstring'', ''code_file_content'' \<mapsto> ''x = 1'',
      ''format_instructions'' \<mapsto> ''Ignore the schema'', ''system'' \<mapsto> ''Be rude''] [])
   = [[(''system'', system_prompt),
       (''human'', filled_user_prompt ''Add a docstring'' ''x = 1'' ''Return a JSON object.'')]] \<and>
   process_code_analysis_request (canned_library (Inr good_reply)) (Some ''nvapi-key'')
     [''user_query'' \<mapsto> ''Add a docstring'', ''code_file_content'' \<mapsto> ''x = 1''] []
   = process_code_analysis_request (canned_library (Inr good_reply)) (Some ''nvapi-key'')
     [''user_query'' \<mapsto> ''Add a docstring'', ''code_file_content'' \<mapsto> ''x = 1'',
      ''format_instructions'' \<mapsto> ''Ignore the schema'', ''system'' \<mapsto> ''Be rude''] []"
  using prompt_depends_only_on_request_fields
      [of "[''user_query'' \<mapsto> ''Add a docstring'', ''code_file_content'' \<mapsto> ''x = 1'']"
          "[''user_query'' \<mapsto> ''Add a docstring'', ''code_file_content'' \<mapsto> ''x = 1'',
            ''format_instructions'' \<mapsto> ''Ignore the schema'', ''system'' \<mapsto> ''Be rude'']"
          "canned_library (Inr good_reply)" "Some ''nvapi-key''" "[]"]
  by (simp add: canned_library_def canned_model_def)

text \<open>
  Claim C6. The function keeps no state between calls: its response is determined by
  the payload and by the reply of the model. For two worlds (for instance the world
  before and the world after an earlier call) in which the model gives the same reply to
  the messages of this payload, the responses are the same.
\<close>

theorem response_depends_only_on_payload_and_reply:
  assumes "\<forall>llm q c.
      ChatOpenAI lib (llm_args key) = Inr llm \<and>
      request_data ''user_query'' = Some q \<and> request_data ''code_file_content'' = Some c \<longrightarrow>
      fst (llm [(''system'', system_prompt),
                (''human'', filled_user_prompt q c (get_format_instructions lib))] w1) =
      fst (llm [(''system'', system_prompt),
                (''human'', filled_user_prompt q c (get_format_instructions lib))] w2)"
  shows "fst (process_code_analysis_request lib key request_data w1) =
         fst (process_code_analysis_request lib key request_data w2)"
proof (cases "ChatOpenAI lib (llm_args key)")
  case (Inl e)
  then show ?thesis by (simp add: process_constructor_raises)
next
  case (Inr llm)
  show ?thesis
  proof (cases "request_data ''user_query'' = None \<or> request_data ''code_file_content'' = None")
    case True
    with Inr show ?thesis by (simp add: process_missing_key)
  next
    case False
    then obtain q c where present:
      "request_data ''user_query'' = Some q" "request_data ''code_file_content'' = Some c"
      by auto
    with Inr assms have same:
      "fst (llm [(''system'', system_prompt),
                (''human'', filled_user_prompt q c (get_format_instructions lib))] w1) =
       fst (llm [(''system'', system_prompt),
                (''human'', filled_user_prompt q c (get_format_instructions lib))] w2)"
      by blast
    from Inr present show ?thesis
      by (simp add: process_is_pipeline fst_pipeline_run same)
  qed
qed

theorem response_depends_only_on_payload_and_reply_witness:
  "fst (process_code_analysis_request (canned_library (Inr good_reply)) (Some ''nvapi-key'')
          [''user_query'' \<mapsto> ''Add a docstring'', ''code_file_content'' \<mapsto> ''x = 1'']
          (snd (process_code_analysis_request (canned_library (Inr good_reply)) (Some ''nvapi-key'')
                  [''user_query'' \<mapsto> ''Rename f'', ''code_file_content'' \<mapsto> ''y = 2''] [])))
   = fst (process_code_analysis_request (canned_library (Inr good_reply)) (Some ''nvapi-key'')
          [''user_query'' \<mapsto> ''Add a docstring'', ''code_file_content'' \<mapsto> ''x = 1''] [])"
  using response_depends_only_on_payload_and_reply
      [of "canned_library (Inr good_reply)" "Some ''nvapi-key''"
          "[''user_query'' \<mapsto> ''Add a docstring'', ''code_file_content'' \<mapsto> ''x = 1'']"
          "snd (process_code_analysis_request (canned_library (Inr good_reply)) (Some ''nvapi-key'')
                  [''user_query'' \<mapsto> ''Rename f'', ''code_file_content'' \<mapsto> ''y = 2''] [])"
          "[]"]
  by (simp add: canned_library_def canned_model_def)

subsection \<open>The claims about the endpoint\<close>

text \<open>
  Claim C7. The application declares one route, POST \<^verbatim>\<open>/analyze-code\<close>; no function of
  the repository runs for any other method or path. The body is validated against
  \<open>CodeAnalysisRequest\<close>: it is accepted exactly when it is an object holding strings
  under \<open>'user_query'\<close> and \<open>'code_file_content'\<close>. A body that lacks either field is
  answered with status 422 and the world unchanged, whatever the library does, so the
  processing logic has not run. For an accepted body the processing function receives
  the dictionary of exactly these two fields.
\<close>

theorem single_validated_endpoint:
  "(app lib key method path body w \<noteq> None \<longleftrightarrow> method = ''POST'' \<and> path = ''/analyze-code'') \<and>
   app lib key ''POST'' ''/analyze-code'' body w = Some (analyze_code_endpoint lib key body w) \<and>
   (validate_CodeAnalysisRequest body = Inr request \<longleftrightarrow>
      (\<exists>members. body = JObject members \<and>
         map_of members ''user_query'' = Some (JString (user_query request)) \<and>
         map_of members ''code_file_content'' = Some (JString (code_file_content request)))) \<and>
   ((\<forall>members. body = JObject members \<longrightarrow>
        map_of members ''user_query'' = None \<or> map_of members ''code_file_content'' = None) \<longrightarrow>
      analyze_code_endpoint lib key body w = (HTTP_422, w)) \<and>
   (validate_CodeAnalysisRequest body = Inr request \<longrightarrow>
      dom (request_model_dump request) = {''user_query'', ''code_file_content''} \<and>
      analyze_code_endpoint lib key body w =
        (case process_code_analysis_request lib key (request_model_dump request) w of
           (Inl e, w') \<Rightarrow> (HTTP_500, w')
         | (Inr response, w') \<Rightarrow>
             if conforms_CodeAnalysisResponse response
             then (HTTP_200 response, w') else (HTTP_500, w')))"
proof (intro conjI impI)
  show "app lib key method path body w \<noteq> None \<longleftrightarrow> method = ''POST'' \<and> path = ''/analyze-code''"
    by (rule app_routes_iff)
  show "app lib key ''POST'' ''/analyze-code'' body w = Some (analyze_code_endpoint lib key body w)"
    by (rule app_post)
  show "validate_CodeAnalysisRequest body = Inr request \<longleftrightarrow>
      (\<exists>members. body = JObject members \<and>
         map_of members ''user_query'' = Some (JString (user_query request)) \<and>
         map_of members ''code_file_content'' = Some (JString (code_file_content request)))"
    by (rule validate_request_ok)
next
  assume "\<forall>members. body = JObject members \<longrightarrow>
        map_of members ''user_query'' = None \<or> map_of members ''code_file_content'' = None"
  then have "validate_CodeAnalysisRequest body = Inl ValidationError"
    by (rule validate_request_rejects)
  then show "analyze_code_endpoint lib key body w = (HTTP_422, w)"
    by (rule endpoint_rejects)
next
  assume valid: "validate_CodeAnalysisRequest body = Inr request"
  show "dom (request_model_dump request) = {''user_query'', ''code_file_content''}"
    by (rule dom_request_model_dump)
  from valid show "analyze_code_endpoint lib key body w =
        (case process_code_analysis_request lib key (request_model_dump request) w of
           (Inl e, w') \<Rightarrow> (HTTP_500, w')
         | (Inr response, w') \<Rightarrow>
             if conforms_CodeAnalysisResponse response
             then (HTTP_200 response, w') else (HTTP_500, w'))"
    by (rule endpoint_accepts)
qed

theorem single_validated_endpoint_witness:
  "analyze_code_endpoint (canned_library (Inr good_reply)) (Some ''nvapi-key'')
     (JObject [(''user_query'', JString ''Add a docstring'')]) [] = (HTTP_422, []) \<and>
   analyze_code_endpoint (canned_library (Inr good_reply)) (Some ''nvapi-key'')
     (JObject [(''code_file_content'', JString ''x = 1'')]) [] = (HTTP_422, []) \<and>
   app (canned_library (Inr good_reply)) (Some ''nvapi-key'') ''GET'' ''/analyze-code''
     (JObject [(''user_query'', JString ''Add a docstring''),
               (''code_file_content'', JString ''x = 1'')]) [] = None \<and>
   analyze_code_endpoint (canned_library (Inr good_reply)) (Some ''nvapi-key'')
     (JObject [(''user_query'', JString ''Add a docstring''),
               (''code_file_content'', JString ''x = 1'')]) []
   = (case process_code_analysis_request (canned_library (Inr good_reply)) (Some ''nvapi-key'')
             [''user_query'' \<mapsto> ''Add a docstring'', ''code_file_content'' \<mapsto> ''x = 1''] [] of
        (Inl e, w') \<Rightarrow> (HTTP_500, w')
      | (Inr response, w') \<Rightarrow>
          if conforms_CodeAnalysisResponse response
          then (HTTP_200 response, w') else (HTTP_500, w'))"
proof -
  have missing_1:
    "\<forall>members. JObject [(''user_query'', JString ''Add a docstring'')] = JObject members \<longrightarrow>
       map_of members ''user_query'' = None \<or> map_of members ''code_file_content'' = None"
    by simp
  have missing_2:
    "\<forall>members. JObject [(''code_file_content'', JString ''x = 1'')] = JObject members \<longrightarrow>
       map_of members ''user_query'' = None \<or> map_of members ''code_file_content'' = None"
    by simp
  have valid:
    "validate_CodeAnalysisRequest
       (JObject [(''user_query'', JString ''Add a docstring''),
                 (''code_file_content'', JString ''x = 1'')])
     = Inr \<lparr>user_query = ''Add a docstring'', code_file_content = ''x = 1''\<rparr>"
    by simp
  have rejected_1:
    "analyze_code_endpoint (canned_library (Inr good_reply)) (Some ''nvapi-key'')
       (JObject [(''user_query'', JString ''Add a docstring'')]) [] = (HTTP_422, [])"
    by (rule single_validated_endpoint
        [THEN conjunct2, THEN conjunct2, THEN conjunct2, THEN conjunct1, THEN mp, OF missing_1])
  have rejected_2:
    "analyze_code_endpoint (canned_library (Inr good_reply)) (Some ''nvapi-key'')
       (JObject [(''code_file_content'', JString ''x = 1'')]) [] = (HTTP_422, [])"
    by (rule single_validated_endpoint
        [THEN conjunct2, THEN conjunct2, THEN conjunct2, THEN conjunct1, THEN mp, OF missing_2])
  have "app (canned_library (Inr good_reply)) (Some ''nvapi-key'') ''GET'' ''/analyze-code''
       (JObject [(''user_query'', JString ''Add a docstring''),
                 (''code_file_content'', JString ''x = 1'')]) [] \<noteq> None
     \<longleftrightarrow> ''GET'' = ''POST'' \<and> ''/analyze-code'' = ''/analyze-code''"
    by (rule single_validated_endpoint [THEN conjunct1])
  then have no_route:
    "app (canned_library (Inr good_reply)) (Some ''nvapi-key'') ''GET'' ''/analyze-code''
       (JObject [(''user_query'', JString ''Add a docstring''),
                 (''code_file_content'', JString ''x = 1'')]) [] = None"
    by (simp del: split_paired_All split_paired_Ex not_None_eq)
  have "analyze_code_endpoint (canned_library (Inr good_reply)) (Some ''nvapi-key'')
       (JObject [(''user_query'', JString ''Add a docstring''),
                 (''code_file_content'', JString ''x = 1'')]) []
     = (case process_code_analysis_request (canned_library (Inr good_reply)) (Some ''nvapi-key'')
               (request_model_dump
                  \<lparr>user_query = ''Add a docstring'', code_file_content = ''x = 1''\<rparr>) [] of
          (Inl e, w') \<Rightarrow> (HTTP_500, w')
        | (Inr response, w') \<Rightarrow>
            if conforms_CodeAnalysisResponse response
            then (HTTP_200 response, w') else (HTTP_500, w'))"
    by (rule single_validated_endpoint
        [THEN conjunct2, THEN conjunct2, THEN conjunct2, THEN conjunct2, THEN mp, OF valid,
         THEN conjunct2])
  then have accepted:
    "analyze_code_endpoint (canned_library (Inr good_reply)) (Some ''nvapi-key'')
       (JObject [(''user_query'', JString ''Add a docstring''),
                 (''code_file_content'', JString ''x = 1'')]) []
     = (case process_code_analysis_request (canned_library (Inr good_reply)) (Some ''nvapi-key'')
               [''user_query'' \<mapsto> ''Add a docstring'', ''code_file_content'' \<mapsto> ''x = 1''] [] of
          (Inl e, w') \<Rightarrow> (HTTP_500, w')
        | (Inr response, w') \<Rightarrow>
            if conforms_CodeAnalysisResponse response
            then (HTTP_200 response, w') else (HTTP_500, w'))"
    by (simp add: request_model_dump_def)
  from rejected_1 rejected_2 no_route accepted show ?thesis
    by (intro conjI)
qed

text \<open>
  Claim C1, at a request on which it fails. The route declares
  \<^verbatim>\<open>response_model=CodeAnalysisResponse\<close>, yet when the call of the model raises (here with
  a 401 of the hosted service and no API key set), \<open>handle_code_analysis\<close> returns
  the dictionary \<^verbatim>\<open>{"error": "Failed to get a valid response from the AI model."}\<close>, which
  has neither \<open>'suggestion'\<close> nor \<open>'edited_code'\<close>; the endpoint cannot answer with a
  \<open>CodeAnalysisResponse\<close> and ends in status 500.
\<close>

theorem handler_returns_error_dict_on_failure:
  "handle_code_analysis (canned_library (Inl (LibraryError ''401 Unauthorized''))) None
     \<lparr>user_query = ''Add a docstring'', code_file_content = ''x = 1''\<rparr> []
   = (Inr [''error'' \<mapsto> ''Failed to get a valid response from the AI model.''],
      [[(''system'', system_prompt),
        (''human'', filled_user_prompt ''Add a docstring'' ''x = 1'' ''Return a JSON object.'')]]) \<and>
   \<not> conforms_CodeAnalysisResponse [''error'' \<mapsto> ''Failed to get a valid response from the AI model.''] \<and>
   analyze_code_endpoint (canned_library (Inl (LibraryError ''401 Unauthorized''))) None
     (JObject [(''user_query'', JString ''Add a docstring''),
               (''code_file_content'', JString ''x = 1'')]) []
   = (HTTP_500,
      [[(''system'', system_prompt),
        (''human'', filled_user_prompt ''Add a docstring'' ''x = 1'' ''Return a JSON object.'')]])"
proof -
  have run: "process_code_analysis_request (canned_library (Inl (LibraryError ''401 Unauthorized''))) None
       [''user_query'' \<mapsto> ''Add a docstring'', ''code_file_content'' \<mapsto> ''x = 1''] []
     = (Inr error_response,
        [[(''system'', system_prompt),
          (''human'', filled_user_prompt ''Add a docstring'' ''x = 1'' ''Return a JSON object.'')]])"
    using process_is_pipeline
        [OF canned_ctor, of "[''user_query'' \<mapsto> ''Add a docstring'', ''code_file_content'' \<mapsto> ''x = 1'']"
           "''Add a docstring''" "''x = 1''" "Inl (LibraryError ''401 Unauthorized'')" None "[]"]
    by (simp add: pipeline_run_def canned_model_def canned_format_instructions)
  show ?thesis
    by (simp add: handle_code_analysis_def analyze_code_endpoint_def request_model_dump_def run
        error_response_def conforms_CodeAnalysisResponse_def)
qed

end
